theory Spec2Isabelle
  imports Main
begin

section \<open>The room-synchronisation server\<close>

text \<open>
  A shallow embedding of the Socket.IO back end: the in-memory \<open>roomStore\<close>, the helper
  \<open>updateRoomState\<close> and the four handlers registered on every connection
  (\<open>createRoom\<close>, \<open>joinRoom\<close>, \<open>updateRoom\<close>, \<open>videoEvent\<close>).

  Strings of the wire format stay strings: the \<open>type\<close> of a video event and the
  \<open>state\<close> of a room are compared and assigned as string literals in the source, and
  a TypeScript literal union puts no check on what arrives at run time. The numbers
  \<open>currentTime\<close> and \<open>lastKnownTime\<close> are only stored and copied by the server,
  never computed with; they are integers (milliseconds) here.
\<close>

subsection \<open>Payloads and room state\<close>

record VideoEventPayload =
  type :: string
  currentTime :: int

record RoomConfigPayload =
  roomId :: string
  videoUrl :: string

record RoomState = RoomConfigPayload +
  lastKnownTime :: int
  state :: string

text \<open>What the server puts on the wire: the channel name with its payload.\<close>

datatype message = SyncVideo RoomState | VideoEvent VideoEventPayload

text \<open>
  A delivery is a message handed to the transport for one connection, named by its
  socket id. A handler returns the deliveries it causes, in the order of its calls.
\<close>

type_synonym delivery = "string \<times> message"

subsection \<open>The server: room store and transport rooms\<close>

text \<open>
  \<open>roomStore\<close> is the source's \<open>Map<string, RoomState>\<close>. Every stored object is
  created by one \<open>createRoom\<close> call and stored under one key only, so the in-place
  writes of the source are updates of the map at that key.

  The transport is Socket.IO's room primitive:
  \<open>sockets\<close> lists the connected socket ids in connection order; \<open>rooms s\<close> is
  \<open>socket.rooms\<close> of socket \<open>s\<close>, a set iterated in insertion order, which holds the
  socket's own id from the moment it connects; \<open>socket.join\<close> adds a room;
  \<open>socket.emit\<close> sends to that socket; \<open>io.to(room).emit\<close> sends to every connected
  socket that is in the room. \<open>socket.to(room).emit\<close> is a broadcast to the room with
  the room named by the sending socket's id as its excepted room: it sends to every
  connected socket that is in the room and is not in the room named by the sender's id.
  The sender is in that room, and so is every socket that has joined it. Payloads are
  serialised when emitted, so a delivery carries the value the object had at that
  moment. The recipients of one broadcast are listed in connection order here; no
  statement below depends on the order among them.
\<close>

record server =
  roomStore :: "string \<rightharpoonup> RoomState"
  sockets :: "string list"
  rooms :: "string \<Rightarrow> string list"

definition initial :: server where
  "initial = \<lparr>roomStore = Map.empty, sockets = [], rooms = (\<lambda>_. [])\<rparr>"

definition connect :: "string \<Rightarrow> server \<Rightarrow> server" where
  "connect s srv =
     (if s \<in> set (sockets srv) then srv
      else srv\<lparr>sockets := sockets srv @ [s], rooms := (rooms srv)(s := [s])\<rparr>)"

definition disconnect :: "string \<Rightarrow> server \<Rightarrow> server" where
  "disconnect s srv =
     srv\<lparr>sockets := removeAll s (sockets srv), rooms := (rooms srv)(s := [])\<rparr>"

definition join :: "string \<Rightarrow> string \<Rightarrow> server \<Rightarrow> server" where
  "join s room srv =
     (if room \<in> set (rooms srv s) then srv
      else srv\<lparr>rooms := (rooms srv)(s := rooms srv s @ [room])\<rparr>)"

definition inRoom :: "server \<Rightarrow> string \<Rightarrow> string \<Rightarrow> bool" where
  "inRoom srv room t = (room \<in> set (rooms srv t))"

definition emitToRoom :: "server \<Rightarrow> string \<Rightarrow> message \<Rightarrow> delivery list" where
  "emitToRoom srv room m =
     map (\<lambda>t. (t, m)) (filter (inRoom srv room) (sockets srv))"

definition emitToOthers :: "server \<Rightarrow> string \<Rightarrow> string \<Rightarrow> message \<Rightarrow> delivery list" where
  "emitToOthers srv s room m =
     map (\<lambda>t. (t, m)) (filter (\<lambda>t. inRoom srv room t \<and> \<not> inRoom srv s t) (sockets srv))"

subsection \<open>Helper: update room state\<close>

definition updateRoomState ::
  "string \<Rightarrow> VideoEventPayload \<Rightarrow> (string \<rightharpoonup> RoomState) \<Rightarrow> (string \<rightharpoonup> RoomState)" where
  "updateRoomState rid event store =
     (case store rid of
        Some room \<Rightarrow>
          store(rid \<mapsto>
            (if type event = ''play''
               then room\<lparr>state := ''playing'', lastKnownTime := currentTime event\<rparr>
             else if type event = ''pause''
               then room\<lparr>state := ''paused'', lastKnownTime := currentTime event\<rparr>
             else if type event = ''seek''
               then room\<lparr>lastKnownTime := currentTime event\<rparr>
             else room))
      | None \<Rightarrow> store)"

subsection \<open>Handlers\<close>

text \<open>
  Each handler is registered per connection; its first argument is the id of the socket
  it is registered on. It returns the server after the call and the deliveries made.
\<close>

definition createRoom :: "string \<Rightarrow> RoomConfigPayload \<Rightarrow> server \<Rightarrow> server \<times> delivery list" where
  "createRoom s data srv =
     (let roomState = \<lparr>roomId = roomId data, videoUrl = videoUrl data,
                       lastKnownTime = 0, state = ''paused''\<rparr>;
          srv1 = srv\<lparr>roomStore := (roomStore srv)(roomId data \<mapsto> roomState)\<rparr>;
          srv2 = join s (roomId data) srv1
      in (srv2, [(s, SyncVideo roomState)]))"

definition joinRoom :: "string \<Rightarrow> string \<Rightarrow> server \<Rightarrow> server \<times> delivery list" where
  "joinRoom s rid srv =
     (let srv1 = join s rid srv
      in case roomStore srv1 rid of
           Some roomState \<Rightarrow> (srv1, [(s, SyncVideo roomState)])
         | None \<Rightarrow>
             (srv1, [(s, SyncVideo \<lparr>roomId = rid, videoUrl = '''',
                                     lastKnownTime = 0, state = ''paused''\<rparr>)]))"

definition updateRoom :: "string \<Rightarrow> RoomConfigPayload \<Rightarrow> server \<Rightarrow> server \<times> delivery list" where
  "updateRoom s data srv =
     (case roomStore srv (roomId data) of
        Some roomState \<Rightarrow>
          (let roomState1 = roomState\<lparr>videoUrl := videoUrl data\<rparr>;
               srv1 = srv\<lparr>roomStore := (roomStore srv)(roomId data \<mapsto> roomState1)\<rparr>
           in (srv1, emitToRoom srv1 (roomId data) (SyncVideo roomState1)))
      | None \<Rightarrow> (srv, []))"

text \<open>
  What the \<open>videoEvent\<close> handler does, in the order in which it does it: a
  \<open>roomStore.set\<close> made by \<open>updateRoomState\<close> (which writes only when the room has an
  entry), or a message handed to the transport for one socket.
\<close>

datatype effect = Write string RoomState | Send string message

fun sent :: "effect list \<Rightarrow> delivery list" where
  "sent [] = []"
| "sent (Write rid room # es) = sent es"
| "sent (Send t m # es) = (t, m) # sent es"

text \<open>
  The body of the \<open>forEach\<close> of the \<open>videoEvent\<close> handler, iterated over the rooms
  in order: reconcile the room, then relay the event to the other sockets of the room.
  \<open>updateRoomState\<close> writes the room back exactly when the room has an entry, and
  the room has one afterwards exactly when it had one before.
\<close>

fun videoEventLoop ::
  "string \<Rightarrow> VideoEventPayload \<Rightarrow> string list \<Rightarrow> server \<times> effect list \<Rightarrow> server \<times> effect list" where
  "videoEventLoop s data [] acc = acc"
| "videoEventLoop s data (rid # rids) (srv, log) =
     (let srv1 = srv\<lparr>roomStore := updateRoomState rid data (roomStore srv)\<rparr>;
          written = (case roomStore srv1 rid of
                       Some room1 \<Rightarrow> [Write rid room1]
                     | None \<Rightarrow> []);
          relayed = map (\<lambda>(t, m). Send t m) (emitToOthers srv1 s rid (VideoEvent data))
      in videoEventLoop s data rids (srv1, log @ written @ relayed))"

definition videoEvent :: "string \<Rightarrow> VideoEventPayload \<Rightarrow> server \<Rightarrow> server \<times> delivery list" where
  "videoEvent s data srv =
     (let rids = filter (\<lambda>room. room \<noteq> s) (rooms srv s)
      in case videoEventLoop s data rids (srv, []) of
           (srv1, log) \<Rightarrow> (srv1, sent log))"

subsection \<open>Runs of the server\<close>

datatype request =
    Connect string
  | CreateRoom string RoomConfigPayload
  | JoinRoom string string
  | UpdateRoom string RoomConfigPayload
  | VideoEventFrom string VideoEventPayload
  | Disconnect string

fun handle :: "request \<Rightarrow> server \<Rightarrow> server \<times> delivery list" where
  "handle (Connect s) srv = (connect s srv, [])"
| "handle (CreateRoom s data) srv = createRoom s data srv"
| "handle (JoinRoom s rid) srv = joinRoom s rid srv"
| "handle (UpdateRoom s data) srv = updateRoom s data srv"
| "handle (VideoEventFrom s data) srv = videoEvent s data srv"
| "handle (Disconnect s) srv = (disconnect s srv, [])"

fun run :: "request list \<Rightarrow> server \<Rightarrow> server" where
  "run [] srv = srv"
| "run (q # qs) srv = run qs (fst (handle q srv))"

subsection \<open>Sequences of playback events on one room\<close>

text \<open>
  \<open>applyEvents rid evs store\<close> calls \<open>updateRoomState\<close> for room \<open>rid\<close> once per event
  of \<open>evs\<close>, in order.
\<close>

fun applyEvents ::
  "string \<Rightarrow> VideoEventPayload list \<Rightarrow> (string \<rightharpoonup> RoomState) \<Rightarrow> (string \<rightharpoonup> RoomState)" where
  "applyEvents rid [] store = store"
| "applyEvents rid (e # es) store = applyEvents rid es (updateRoomState rid e store)"

text \<open>The hypothesis under which room times stay non-negative: what a request reports.\<close>

fun timeOk :: "request \<Rightarrow> bool" where
  "timeOk (VideoEventFrom s e) = (0 \<le> currentTime e)"
| "timeOk q = True"

subsection \<open>Concrete runs used as examples\<close>

text \<open>
  Two viewers in room R1 (created by A, joined by B), a third socket C in its own room
  R2, after B has pressed play at 1.5 seconds.
\<close>

definition updateScenario :: server where
  "updateScenario =
     run [Connect ''A'', Connect ''B'', Connect ''C'',
          CreateRoom ''A'' \<lparr>roomId = ''R1'', videoUrl = ''v1''\<rparr>,
          JoinRoom ''B'' ''R1'',
          CreateRoom ''C'' \<lparr>roomId = ''R2'', videoUrl = ''w''\<rparr>,
          VideoEventFrom ''B'' \<lparr>type = ''play'', currentTime = 1500\<rparr>] initial"





subsection \<open>Well-formed room states\<close>

definition roomOk :: "RoomState \<Rightarrow> bool" where
  "roomOk room = (0 \<le> lastKnownTime room \<and> (state room = ''playing'' \<or> state room = ''paused''))"

section \<open>Basic facts\<close>

lemma updateRoomState_other: "q \<noteq> rid \<Longrightarrow> updateRoomState rid e store q = store q"
  by (simp add: updateRoomState_def split: option.splits)

lemma updateRoomState_absent: "store rid = None \<Longrightarrow> updateRoomState rid e store = store"
  by (simp add: updateRoomState_def)

lemma updateRoomState_present:
  "store rid = Some room \<Longrightarrow>
   updateRoomState rid e store rid =
     Some (if type e = ''play'' then room\<lparr>state := ''playing'', lastKnownTime := currentTime e\<rparr>
           else if type e = ''pause'' then room\<lparr>state := ''paused'', lastKnownTime := currentTime e\<rparr>
           else if type e = ''seek'' then room\<lparr>lastKnownTime := currentTime e\<rparr>
           else room)"
  by (simp add: updateRoomState_def)

lemma updateRoomState_keeps_room:
  "store rid = Some room \<Longrightarrow> \<exists>room'. updateRoomState rid e store rid = Some room'"
  by (simp add: updateRoomState_present)

lemma applyEvents_append:
  "applyEvents rid (xs @ ys) store = applyEvents rid ys (applyEvents rid xs store)"
  by (induction xs arbitrary: store) simp_all

lemma applyEvents_keeps_room:
  "store rid = Some room \<Longrightarrow> \<exists>room'. applyEvents rid es store rid = Some room'"
proof (induction es arbitrary: store room)
  case Nil
  then show ?case by simp
next
  case (Cons e es)
  from Cons.prems obtain r1 where "updateRoomState rid e store rid = Some r1"
    using updateRoomState_keeps_room by blast
  then show ?case using Cons.IH by simp
qed

lemma roomStore_join [simp]: "roomStore (join s room srv) = roomStore srv"
  by (simp add: join_def)

lemma sockets_join [simp]: "sockets (join s room srv) = sockets srv"
  by (simp add: join_def)

lemma emitToRoom_set:
  "set (emitToRoom srv room m) = {(t, m) | t. t \<in> set (sockets srv) \<and> room \<in> set (rooms srv t)}"
  by (auto simp: emitToRoom_def inRoom_def)


lemma emitToOthers_roomStore [simp]:
  "emitToOthers (srv\<lparr>roomStore := st\<rparr>) s room m = emitToOthers srv s room m"
  by (simp add: emitToOthers_def inRoom_def)

lemma updateScenario_value:
  "updateScenario =
     \<lparr>roomStore = [''R1'' \<mapsto> \<lparr>roomId = ''R1'', videoUrl = ''v1'', lastKnownTime = 1500, state = ''playing''\<rparr>,
                   ''R2'' \<mapsto> \<lparr>roomId = ''R2'', videoUrl = ''w'', lastKnownTime = 0, state = ''paused''\<rparr>],
      sockets = [''A'', ''B'', ''C''],
      rooms = ((\<lambda>_. [])(''A'' := [''A'', ''R1''], ''B'' := [''B'', ''R1''], ''C'' := [''C'', ''R2'']))\<rparr>"
  by (simp add: updateScenario_def initial_def connect_def createRoom_def joinRoom_def join_def
      videoEvent_def updateRoomState_def Let_def fun_upd_twist)

lemma updateRoomState_at:
  "updateRoomState rid e store rid =
     map_option (\<lambda>room. if type e = ''play'' then room\<lparr>state := ''playing'', lastKnownTime := currentTime e\<rparr>
           else if type e = ''pause'' then room\<lparr>state := ''paused'', lastKnownTime := currentTime e\<rparr>
           else if type e = ''seek'' then room\<lparr>lastKnownTime := currentTime e\<rparr>
           else room) (store rid)"
  by (simp add: updateRoomState_def split: option.splits)

lemma updateRoomState_roomOk:
  assumes "\<And>q room. store q = Some room \<Longrightarrow> roomOk room" and "0 \<le> currentTime e"
    and "updateRoomState rid e store q = Some room"
  shows "roomOk room"
proof (cases "q = rid")
  case True
  with assms(3) obtain r0 where r0: "store rid = Some r0"
    by (auto simp: updateRoomState_at)
  then have "roomOk r0" using assms(1) by blast
  with assms(2,3) r0 True show ?thesis
    by (auto simp: updateRoomState_present roomOk_def split: if_splits)
next
  case False
  with assms(1,3) show ?thesis by (simp add: updateRoomState_other)
qed

lemma updateRoomState_twice_at:
  "updateRoomState r d (updateRoomState rid d store) r = updateRoomState r d store r"
proof (cases "r = rid")
  case True
  then show ?thesis
    by (cases "store rid") (simp_all add: updateRoomState_at)
next
  case False
  then show ?thesis
    by (simp add: updateRoomState_at updateRoomState_other)
qed

lemma sent_append [simp]: "sent (xs @ ys) = sent xs @ sent ys"
  by (induction xs rule: sent.induct) simp_all

lemma sent_relayed [simp]: "sent (map (\<lambda>(t, m). Send t m) ds) = ds"
  by (induction ds) auto

lemma sent_written [simp]:
  "sent (case x of Some room1 \<Rightarrow> [Write rid room1] | None \<Rightarrow> []) = []"
  by (cases x) simp_all


lemma videoEventLoop_eq:
  "videoEventLoop s d rids (srv, log) =
     (srv\<lparr>roomStore := foldl (\<lambda>st r. updateRoomState r d st) (roomStore srv) rids\<rparr>,
      log @ concat (map (\<lambda>r.
              (case updateRoomState r d (roomStore srv) r of
                 Some room1 \<Rightarrow> [Write r room1] | None \<Rightarrow> [])
              @ map (\<lambda>(t, m). Send t m) (emitToOthers srv s r (VideoEvent d))) rids))"
  by (induction rids arbitrary: srv log) (simp_all add: Let_def updateRoomState_twice_at)

lemma foldl_updateRoomState_at:
  "foldl (\<lambda>st r. updateRoomState r d st) store rids q =
     (if q \<in> set rids then updateRoomState q d store q else store q)"
proof (induction rids arbitrary: store)
  case Nil
  then show ?case by simp
next
  case (Cons r rids)
  show ?case
  proof (cases "q = r")
    case True
    have "foldl (\<lambda>st r. updateRoomState r d st) (updateRoomState r d store) rids r =
            updateRoomState r d store r"
      using Cons.IH [of "updateRoomState r d store"] True
      by (cases "store r") (simp_all add: updateRoomState_at)
    with True show ?thesis by simp
  next
    case False
    have "foldl (\<lambda>st r. updateRoomState r d st) (updateRoomState r d store) rids q =
            (if q \<in> set rids then updateRoomState q d store q else store q)"
      using Cons.IH [of "updateRoomState r d store"] False
      by (simp add: updateRoomState_at updateRoomState_other)
    with False show ?thesis by simp
  qed
qed

lemma videoEvent_roomStore:
  "roomStore (fst (videoEvent s d srv)) q =
     (if q \<in> set (rooms srv s) \<and> q \<noteq> s then updateRoomState q d (roomStore srv) q
      else roomStore srv q)"
  by (simp add: videoEvent_def Let_def videoEventLoop_eq foldl_updateRoomState_at)








lemma updateScenario_R1:
  "roomStore updateScenario ''R1'' =
     Some \<lparr>roomId = ''R1'', videoUrl = ''v1'', lastKnownTime = 1500, state = ''playing''\<rparr>"
  by (simp add: updateScenario_value)

lemma updateScenario_sockets: "sockets updateScenario = [''A'', ''B'', ''C'']"
  by (simp add: updateScenario_value)

lemma updateScenario_rooms:
  "rooms updateScenario ''A'' = [''A'', ''R1'']"
  "rooms updateScenario ''B'' = [''B'', ''R1'']"
  "rooms updateScenario ''C'' = [''C'', ''R2'']"
  by (simp_all add: updateScenario_value)










lemma videoEvent_roomOk:
  assumes "\<And>q room. roomStore srv q = Some room \<Longrightarrow> roomOk room" and "0 \<le> currentTime d"
    and "roomStore (fst (videoEvent s d srv)) q = Some room"
  shows "roomOk room"
proof (cases "q \<in> set (rooms srv s) \<and> q \<noteq> s")
  case True
  then have "updateRoomState q d (roomStore srv) q = Some room"
    using assms(3) by (simp add: videoEvent_roomStore)
  then show ?thesis
    using updateRoomState_roomOk [of "roomStore srv" d q q room] assms(1,2) by blast
next
  case False
  then have "roomStore srv q = Some room"
    using assms(3) by (auto simp: videoEvent_roomStore split: if_splits)
  then show ?thesis using assms(1) by blast
qed

lemma handle_roomOk:
  assumes "timeOk rq" and inv: "\<And>q room. roomStore srv q = Some room \<Longrightarrow> roomOk room"
    and after: "roomStore (fst (handle rq srv)) q = Some room"
  shows "roomOk room"
proof (cases rq)
  case (Connect s)
  with after inv show ?thesis by (auto simp: connect_def split: if_splits)
next
  case (CreateRoom s data)
  with after inv show ?thesis
    by (auto simp: createRoom_def Let_def roomOk_def split: if_splits)
next
  case (JoinRoom s rid)
  with after inv show ?thesis
    by (auto simp: joinRoom_def Let_def split: option.splits)
next
  case (UpdateRoom s data)
  with after inv show ?thesis
    by (fastforce simp: updateRoom_def Let_def roomOk_def split: option.splits if_splits)
next
  case (VideoEventFrom s d)
  with assms(1) have "0 \<le> currentTime d" by simp
  with VideoEventFrom after inv show ?thesis
    using videoEvent_roomOk [of srv d s q room] by simp
next
  case (Disconnect s)
  with after inv show ?thesis by (auto simp: disconnect_def)
qed

lemma run_roomOk:
  assumes "\<forall>rq \<in> set qs. timeOk rq" and "\<And>q room. roomStore srv q = Some room \<Longrightarrow> roomOk room"
    and "roomStore (run qs srv) q = Some room"
  shows "roomOk room"
  using assms
proof (induction qs arbitrary: srv)
  case Nil
  then show ?case by simp
next
  case (Cons rq qs)
  have step: "\<And>q room. roomStore (fst (handle rq srv)) q = Some room \<Longrightarrow> roomOk room"
    using handle_roomOk [of rq srv] Cons.prems(1,2) by simp
  show ?case
    using Cons.IH [of "fst (handle rq srv)"] Cons.prems(1,3) step by simp
qed

lemma handle_new_room:
  assumes "roomStore srv rid = None" and "roomStore (fst (handle rq srv)) rid = Some room"
  shows "lastKnownTime room = 0 \<and> state room = ''paused''"
proof (cases rq)
  case (Connect s)
  with assms show ?thesis by (auto simp: connect_def split: if_splits)
next
  case (CreateRoom s data)
  with assms show ?thesis by (auto simp: createRoom_def Let_def split: if_splits)
next
  case (JoinRoom s r)
  with assms show ?thesis by (auto simp: joinRoom_def Let_def split: option.splits)
next
  case (UpdateRoom s data)
  with assms show ?thesis
    by (auto simp: updateRoom_def Let_def split: option.splits if_splits)
next
  case (VideoEventFrom s d)
  with assms show ?thesis
    by (auto simp: videoEvent_roomStore updateRoomState_at split: if_splits)
next
  case (Disconnect s)
  with assms show ?thesis by (auto simp: disconnect_def)
qed

section \<open>The state reconciler\<close>

text \<open>
  C1. For every sequence of play, pause and seek events applied to a room that exists,
  after each event the room's \<open>lastKnownTime\<close> is that event's \<open>currentTime\<close>, and its
  \<open>state\<close> is playing after a play, paused after a pause, and what it was before the
  event after a seek. The room before the \<open>i\<close>-th event is the one reached by the first
  \<open>i\<close> events; the room after it is the one reached by the first \<open>i + 1\<close>.
\<close>

theorem updateRoomState_each_event:
  assumes present: "store rid = Some room0"
    and types: "\<forall>e \<in> set evs. type e = ''play'' \<or> type e = ''pause'' \<or> type e = ''seek''"
    and i: "i < length evs"
  shows "\<exists>room room'.
           applyEvents rid (take i evs) store rid = Some room \<and>
           applyEvents rid (take (Suc i) evs) store rid = Some room' \<and>
           lastKnownTime room' = currentTime (evs ! i) \<and>
           state room' = (if type (evs ! i) = ''play'' then ''playing''
                          else if type (evs ! i) = ''pause'' then ''paused''
                          else state room)"
proof -
  obtain room where before: "applyEvents rid (take i evs) store rid = Some room"
    using applyEvents_keeps_room [of store rid room0 "take i evs"] present by blast
  have step: "applyEvents rid (take (Suc i) evs) store =
              updateRoomState rid (evs ! i) (applyEvents rid (take i evs) store)"
    using i by (simp add: take_Suc_conv_app_nth applyEvents_append)
  have ty: "type (evs ! i) = ''play'' \<or> type (evs ! i) = ''pause'' \<or> type (evs ! i) = ''seek''"
    using types i by simp
  show ?thesis
    using before ty by (auto simp: step updateRoomState_present)
qed

theorem updateRoomState_each_event_witness:
  "\<exists>room room'.
     applyEvents ''R1'' (take 1 [\<lparr>type = ''play'', currentTime = 5\<rparr>, \<lparr>type = ''seek'', currentTime = 9\<rparr>])
       [''R1'' \<mapsto> \<lparr>roomId = ''R1'', videoUrl = ''v1'', lastKnownTime = 0, state = ''paused''\<rparr>] ''R1'' = Some room \<and>
     applyEvents ''R1'' (take (Suc 1) [\<lparr>type = ''play'', currentTime = 5\<rparr>, \<lparr>type = ''seek'', currentTime = 9\<rparr>])
       [''R1'' \<mapsto> \<lparr>roomId = ''R1'', videoUrl = ''v1'', lastKnownTime = 0, state = ''paused''\<rparr>] ''R1'' = Some room' \<and>
     lastKnownTime room' = 9 \<and> state room' = ''playing'' \<and> state room = ''playing''"
  using updateRoomState_each_event [of "[''R1'' \<mapsto> \<lparr>roomId = ''R1'', videoUrl = ''v1'', lastKnownTime = 0, state = ''paused''\<rparr>]"
     "''R1''" "\<lparr>roomId = ''R1'', videoUrl = ''v1'', lastKnownTime = 0, state = ''paused''\<rparr>"
     "[\<lparr>type = ''play'', currentTime = 5\<rparr>, \<lparr>type = ''seek'', currentTime = 9\<rparr>]" 1]
  by (simp add: updateRoomState_def)

text \<open>
  C10. An event whose \<open>type\<close> is none of play, pause and seek leaves the whole store as
  it is when \<open>updateRoomState\<close> applies it to any room, present or not: no branch of the
  helper matches, and writing the untouched room back changes nothing.
\<close>

theorem updateRoomState_unknown_type:
  assumes "type e \<noteq> ''play''" and "type e \<noteq> ''pause''" and "type e \<noteq> ''seek''"
  shows "updateRoomState rid e store = store"
  using assms by (auto simp: updateRoomState_def split: option.splits)

theorem updateRoomState_unknown_type_witness:
  "updateRoomState ''R1'' \<lparr>type = ''stop'', currentTime = 7\<rparr>
     [''R1'' \<mapsto> \<lparr>roomId = ''R1'', videoUrl = ''v1'', lastKnownTime = 3, state = ''playing''\<rparr>]
   = [''R1'' \<mapsto> \<lparr>roomId = ''R1'', videoUrl = ''v1'', lastKnownTime = 3, state = ''playing''\<rparr>]"
  using updateRoomState_unknown_type [of "\<lparr>type = ''stop'', currentTime = 7\<rparr>" "''R1''"
     "[''R1'' \<mapsto> \<lparr>roomId = ''R1'', videoUrl = ''v1'', lastKnownTime = 3, state = ''playing''\<rparr>]"]
  by simp

section \<open>Joining a room\<close>

text \<open>
  C3. Joining a room that has no entry in the store answers the joining socket, and only
  it, with the default snapshot: the requested room id, an empty video URL, time 0,
  paused.
\<close>

theorem joinRoom_unknown_room:
  assumes "roomStore srv rid = None"
  shows "snd (joinRoom s rid srv) =
           [(s, SyncVideo \<lparr>roomId = rid, videoUrl = '''', lastKnownTime = 0, state = ''paused''\<rparr>)]"
  using assms by (simp add: joinRoom_def Let_def)

theorem joinRoom_unknown_room_witness:
  "snd (joinRoom ''A'' ''R'' (connect ''A'' initial)) =
     [(''A'', SyncVideo \<lparr>roomId = ''R'', videoUrl = '''', lastKnownTime = 0, state = ''paused''\<rparr>)]"
  using joinRoom_unknown_room [of "connect ''A'' initial" "''R''" "''A''"]
  by (simp add: connect_def initial_def)

text \<open>
  C8. A join never writes the store, whether the room exists or not; in particular a
  room that was unknown is still unknown afterwards: the default snapshot is sent, not
  stored.
\<close>

theorem joinRoom_registry_unchanged:
  "roomStore (fst (joinRoom s rid srv)) = roomStore srv \<and>
   (roomStore srv rid = None \<longrightarrow> roomStore (fst (joinRoom s rid srv)) rid = None)"
  by (simp add: joinRoom_def Let_def split: option.splits)

theorem joinRoom_registry_unchanged_witness:
  "roomStore (fst (joinRoom ''A'' ''R'' (connect ''A'' initial))) = roomStore (connect ''A'' initial) \<and>
   roomStore (connect ''A'' initial) ''R'' = None \<and>
   roomStore (fst (joinRoom ''A'' ''R'' (connect ''A'' initial))) ''R'' = None"
  using joinRoom_registry_unchanged [of "''A''" "''R''" "connect ''A'' initial"]
  by (simp add: connect_def initial_def)

section \<open>Creating a room\<close>

text \<open>
  C4. Two \<open>createRoom\<close> calls with the same room id, from any sockets and with any video
  URLs, leave the store with the fresh state of the second call under that id (its
  video URL, time 0, paused) and every other entry as it was; that entry is the one the
  second call alone puts into an empty store; and the second call answers with that
  snapshot, like any \<open>createRoom\<close>, not with an error.
\<close>

theorem createRoom_twice_overwrites:
  "roomStore (fst (createRoom s2 \<lparr>roomId = rid, videoUrl = v2\<rparr>
                    (fst (createRoom s1 \<lparr>roomId = rid, videoUrl = v1\<rparr> srv))))
     = (roomStore srv)(rid \<mapsto> \<lparr>roomId = rid, videoUrl = v2, lastKnownTime = 0, state = ''paused''\<rparr>)
   \<and> roomStore (fst (createRoom s2 \<lparr>roomId = rid, videoUrl = v2\<rparr>
                    (fst (createRoom s1 \<lparr>roomId = rid, videoUrl = v1\<rparr> srv)))) rid
     = roomStore (fst (createRoom s2 \<lparr>roomId = rid, videoUrl = v2\<rparr> initial)) rid
   \<and> snd (createRoom s2 \<lparr>roomId = rid, videoUrl = v2\<rparr>
                    (fst (createRoom s1 \<lparr>roomId = rid, videoUrl = v1\<rparr> srv)))
     = [(s2, SyncVideo \<lparr>roomId = rid, videoUrl = v2, lastKnownTime = 0, state = ''paused''\<rparr>)]"
  by (simp add: createRoom_def Let_def)

section \<open>Updating a room\<close>

text \<open>
  C6. \<open>updateRoom\<close> for a room id that has no entry in the store does nothing: the
  server (store, sockets, memberships) is returned as it was and no delivery is made.
\<close>

theorem updateRoom_unknown_room:
  assumes "roomStore srv (roomId data) = None"
  shows "updateRoom s data srv = (srv, [])"
  using assms by (simp add: updateRoom_def)

theorem updateRoom_unknown_room_witness:
  "updateRoom ''A'' \<lparr>roomId = ''R1'', videoUrl = ''v2''\<rparr> (connect ''A'' initial)
     = (connect ''A'' initial, [])"
  using updateRoom_unknown_room [of "connect ''A'' initial" "\<lparr>roomId = ''R1'', videoUrl = ''v2''\<rparr>" "''A''"]
  by (simp add: connect_def initial_def)

text \<open>
  C5. \<open>updateRoom\<close> for a room that has an entry changes that entry's \<open>videoUrl\<close> and
  nothing else: the stored room keeps its \<open>lastKnownTime\<close>, \<open>state\<close> and \<open>roomId\<close>,
  every other entry of the store is as before, and so are the sockets and their rooms.
  The updated snapshot goes to exactly the connected sockets that are in the room, with
  no one excluded: the sender, being in the room, receives it too.
\<close>

theorem updateRoom_existing_room:
  assumes "roomStore srv (roomId data) = Some room"
  shows "\<exists>room'.
           roomStore (fst (updateRoom s data srv)) (roomId data) = Some room'
         \<and> videoUrl room' = videoUrl data
         \<and> lastKnownTime room' = lastKnownTime room
         \<and> state room' = state room
         \<and> roomId room' = roomId room
         \<and> (\<forall>q. q \<noteq> roomId data \<longrightarrow> roomStore (fst (updateRoom s data srv)) q = roomStore srv q)
         \<and> sockets (fst (updateRoom s data srv)) = sockets srv
         \<and> rooms (fst (updateRoom s data srv)) = rooms srv
         \<and> set (snd (updateRoom s data srv)) =
             {(t, SyncVideo room') | t. t \<in> set (sockets srv) \<and> roomId data \<in> set (rooms srv t)}
         \<and> (s \<in> set (sockets srv) \<and> roomId data \<in> set (rooms srv s) \<longrightarrow>
              (s, SyncVideo room') \<in> set (snd (updateRoom s data srv)))"
  using assms by (simp add: updateRoom_def Let_def emitToRoom_set)

theorem updateRoom_existing_room_witness:
  "roomStore updateScenario ''R1'' =
     Some \<lparr>roomId = ''R1'', videoUrl = ''v1'', lastKnownTime = 1500, state = ''playing''\<rparr>
   \<and> (\<exists>room'.
     roomStore (fst (updateRoom ''A'' \<lparr>roomId = ''R1'', videoUrl = ''v2''\<rparr> updateScenario)) ''R1'' = Some room'
   \<and> videoUrl room' = ''v2'' \<and> lastKnownTime room' = 1500 \<and> state room' = ''playing''
   \<and> (''A'', SyncVideo room') \<in> set (snd (updateRoom ''A'' \<lparr>roomId = ''R1'', videoUrl = ''v2''\<rparr> updateScenario))
   \<and> (''B'', SyncVideo room') \<in> set (snd (updateRoom ''A'' \<lparr>roomId = ''R1'', videoUrl = ''v2''\<rparr> updateScenario))
   \<and> (''C'', SyncVideo room') \<notin> set (snd (updateRoom ''A'' \<lparr>roomId = ''R1'', videoUrl = ''v2''\<rparr> updateScenario)))"
  using updateRoom_existing_room [of updateScenario "\<lparr>roomId = ''R1'', videoUrl = ''v2''\<rparr>"
      "\<lparr>roomId = ''R1'', videoUrl = ''v1'', lastKnownTime = 1500, state = ''playing''\<rparr>" "''A''"]
  apply (simp add: updateScenario_R1 updateScenario_sockets)
  apply (elim exE conjE)
  apply (rule_tac x = room' in exI)
  apply (simp add: updateScenario_rooms)
  done

section \<open>Relaying video events\<close>







section \<open>Reachable room states\<close>

text \<open>
  C7. Start from the empty server and handle any sequence of connects, \<open>createRoom\<close>,
  \<open>joinRoom\<close>, \<open>updateRoom\<close>, \<open>videoEvent\<close> requests and disconnects in which every
  video event reports a non-negative time. Then every room in the store has a
  non-negative \<open>lastKnownTime\<close> and a \<open>state\<close> that is playing or paused; and whenever
  one more request, of any kind, puts a room into the store that was not there, the
  room starts at time 0 and paused.
\<close>

theorem reachable_rooms_wellformed:
  assumes "\<forall>rq \<in> set qs. timeOk rq"
  shows "(\<forall>rid room. roomStore (run qs initial) rid = Some room \<longrightarrow>
            0 \<le> lastKnownTime room \<and> (state room = ''playing'' \<or> state room = ''paused''))
       \<and> (\<forall>rq rid room. roomStore (run qs initial) rid = None \<and>
              roomStore (fst (handle rq (run qs initial))) rid = Some room \<longrightarrow>
            lastKnownTime room = 0 \<and> state room = ''paused'')"
proof -
  have "\<And>q room. roomStore initial q = Some room \<Longrightarrow> roomOk room"
    by (simp add: initial_def)
  then have "\<And>rid room. roomStore (run qs initial) rid = Some room \<Longrightarrow> roomOk room"
    using run_roomOk [of qs initial] assms by blast
  then show ?thesis
    using handle_new_room by (auto simp: roomOk_def)
qed

theorem reachable_rooms_wellformed_witness:
  "list_all timeOk [Connect ''A'', Connect ''B'', Connect ''C'',
          CreateRoom ''A'' \<lparr>roomId = ''R1'', videoUrl = ''v1''\<rparr>,
          JoinRoom ''B'' ''R1'',
          CreateRoom ''C'' \<lparr>roomId = ''R2'', videoUrl = ''w''\<rparr>,
          VideoEventFrom ''B'' \<lparr>type = ''play'', currentTime = 1500\<rparr>]
   \<and> roomStore updateScenario ''R1''
       = Some \<lparr>roomId = ''R1'', videoUrl = ''v1'', lastKnownTime = 1500, state = ''playing''\<rparr>
   \<and> 0 \<le> lastKnownTime \<lparr>roomId = ''R1'', videoUrl = ''v1'', lastKnownTime = 1500, state = ''playing''\<rparr>
   \<and> (state \<lparr>roomId = ''R1'', videoUrl = ''v1'', lastKnownTime = 1500, state = ''playing''\<rparr> = ''playing''
      \<or> state \<lparr>roomId = ''R1'', videoUrl = ''v1'', lastKnownTime = 1500, state = ''playing''\<rparr> = ''paused'')"
proof -
  have h: "\<forall>rq \<in> set [Connect ''A'', Connect ''B'', Connect ''C'',
          CreateRoom ''A'' \<lparr>roomId = ''R1'', videoUrl = ''v1''\<rparr>,
          JoinRoom ''B'' ''R1'',
          CreateRoom ''C'' \<lparr>roomId = ''R2'', videoUrl = ''w''\<rparr>,
          VideoEventFrom ''B'' \<lparr>type = ''play'', currentTime = 1500\<rparr>]. timeOk rq"
    by simp
  have all: "list_all timeOk [Connect ''A'', Connect ''B'', Connect ''C'',
          CreateRoom ''A'' \<lparr>roomId = ''R1'', videoUrl = ''v1''\<rparr>,
          JoinRoom ''B'' ''R1'',
          CreateRoom ''C'' \<lparr>roomId = ''R2'', videoUrl = ''w''\<rparr>,
          VideoEventFrom ''B'' \<lparr>type = ''play'', currentTime = 1500\<rparr>]"
    by simp
  note t = reachable_rooms_wellformed [OF h, THEN conjunct1, folded updateScenario_def,
               rule_format, OF updateScenario_R1]
  show ?thesis
    by (rule conjI all updateScenario_R1 t)+
qed

end
